theory Spec2Isabelle
  imports Main "HOL-Library.Word" "HOL-Library.Signed_Division"
begin

unbundle bit_operations_syntax

section \<open>DCCTimer.h: the timer class and the analog sampler\<close>

text \<open>
  The header declares two classes of static members. Only one member function has its
  body in the header, \<open>DCCTimer::updateMinimumFreeMemoryISR\<close>, next to the constants
  \<open>DCC_SIGNAL_TIME\<close> and \<open>CLOCK_CYCLES\<close>; the other member functions are declared
  there and defined per architecture elsewhere.

  The C++ type \<open>int\<close> is 16 bits wide on AVR and 32 bits wide on the ARM and ESP
  targets, so an \<open>int\<close> is an \<open>'a word\<close> of any length, read in two's complement
  by \<open>sint\<close> and compared by \<open><s\<close>. Subtraction is the word subtraction: where the
  mathematical difference leaves the range of \<open>int\<close> (undefined in C++) the model has the
  two's complement result the targets compute. \<open>unsigned char\<close>, \<open>byte\<close> and
  \<open>uint8_t\<close> are \<open>8 word\<close>, \<open>uint16_t\<close> is \<open>16 word\<close>, \<open>long\<close> is
  \<open>32 word\<close> on every target.
\<close>

type_synonym byte = "8 word"
type_synonym long = "32 word"

subsection \<open>class DCCTimer\<close>

text \<open>
  The one static data member of the class (line 86). The type parameter is the type of
  \<open>int\<close>; the operations below instantiate it with \<open>'a word\<close>.
\<close>

record 'i DCCTimer =
  minimum_free_memory :: "'i"

text \<open>
  Lines 76 and 77 of \<open>updateMinimumFreeMemoryISR\<close>: the local variable \<open>spare\<close>.
  \<open>free\<close> is the value that the private \<open>freeMemory()\<close> returns at this call (its
  body is not in the header); \<open>extraBytes\<close> is promoted from \<open>unsigned char\<close> to
  \<open>int\<close>.
\<close>

definition spare :: "'a::len word \<Rightarrow> byte \<Rightarrow> 'a word" where
  "spare free extraBytes =
     (let spare = free - ucast extraBytes
      in if spare <s 0 then 0 else spare)"

text \<open>Line 78: the watermark is assigned only under the strict comparison.\<close>

definition updateMinimumFreeMemoryISR ::
  "'a::len word \<Rightarrow> byte \<Rightarrow> ('a word, 'z) DCCTimer_scheme \<Rightarrow> ('a word, 'z) DCCTimer_scheme" where
  "updateMinimumFreeMemoryISR free extraBytes s =
     (if spare free extraBytes <s minimum_free_memory s
      then s\<lparr>minimum_free_memory := spare free extraBytes\<rparr>
      else s)"

text \<open>
  A sequence of calls, each with the value \<open>freeMemory()\<close> returns at that call and its
  \<open>extraBytes\<close> argument: the list of the states after each call.
\<close>

fun run_updates ::
  "('a::len word \<times> byte) list \<Rightarrow> ('a word, 'z) DCCTimer_scheme \<Rightarrow> ('a word, 'z) DCCTimer_scheme list" where
  "run_updates [] s = []"
| "run_updates ((free, extraBytes) # calls) s =
     updateMinimumFreeMemoryISR free extraBytes s
       # run_updates calls (updateMinimumFreeMemoryISR free extraBytes s)"

text \<open>Line 87: the half-cycle of the DCC 1-bit waveform in microseconds.\<close>

definition DCC_SIGNAL_TIME :: int where
  "DCC_SIGNAL_TIME = 58"

text \<open>
  The operator \<open>/\<close> of C++ on \<open>long\<close>: the quotient truncated towards zero. (A zero
  divisor and \<open>LONG_MIN / -1\<close> are undefined in C++; the header divides by 1000000 only.)
\<close>

definition div_long :: "long \<Rightarrow> long \<Rightarrow> long" where
  "div_long a b = word_of_int (sint a sdiv sint b)"

text \<open>
  Lines 89 and 91. \<open>F_CPU\<close> is a macro of the build (the clock frequency in Hz, a
  \<open>long\<close> constant), a parameter here; the STM32 branch fixes it to \<open>100000000L\<close>.
  \<open>DCC_SIGNAL_TIME\<close> is converted from \<open>int\<close> to \<open>long\<close>, and \<open>>>\<close> on a signed
  operand is the arithmetic shift.
\<close>

definition CLOCK_CYCLES :: "long \<Rightarrow> long" where
  "CLOCK_CYCLES F_CPU =
     signed_drop_bit 1 (div_long F_CPU 1000000 * word_of_int DCC_SIGNAL_TIME)"

definition CLOCK_CYCLES_STM32 :: long where
  "CLOCK_CYCLES_STM32 =
     signed_drop_bit 1 (div_long 100000000 1000000 * word_of_int DCC_SIGNAL_TIME)"

text \<open>
  The specification's words for the same constant: the timer ticks per microsecond of
  the build, and \<open>ticksPerMicrosecond * 58 / 2\<close> in exact truncating integer
  arithmetic (\<open>sdiv\<close> on \<open>int\<close> truncates towards zero).
\<close>

definition ticksPerMicrosecond :: "long \<Rightarrow> int" where
  "ticksPerMicrosecond F_CPU = sint F_CPU sdiv 1000000"

definition clockCycles_spec :: "int \<Rightarrow> int" where
  "clockCycles_spec tpm = (tpm * 58) sdiv 2"

subsection \<open>class ADCee\<close>

text \<open>
  The two static data members (lines 107 and 108): the bitset \<open>usedpins\<close> of type
  \<open>uint16_t\<close> and the array behind the pointer \<open>analogvals\<close>, indexed by slot.
\<close>

record 'i ADCee =
  usedpins :: "16 word"
  analogvals :: "nat \<Rightarrow> 'i"

text \<open>Bit \<open>n\<close> of \<open>usedpins\<close> is set: the pin of slot \<open>n\<close> is registered.\<close>

definition monitored :: "('i, 'z) ADCee_scheme \<Rightarrow> nat \<Rightarrow> bool" where
  "monitored s n = bit (usedpins s) n"

section \<open>The member functions that the header only declares\<close>

text \<open>
  \<open>begin\<close>, \<open>getSimulatedMacAddress\<close>, \<open>isPWMPin\<close>, \<open>setPWM\<close>,
  \<open>getMinimumFreeMemory\<close>, \<open>reset\<close>, \<open>ADCee::init\<close>, \<open>ADCee::read\<close> and
  \<open>ADCee::scan\<close> have no body in the header. Each is modelled from the specification
  (sections 3 and 4), and what the specification calls a contract violation or a fatal
  misconfiguration is a value of the type \<open>violation\<close>.
\<close>

datatype violation = DoubleBegin | NotPWMPin | PinNotRegistered | NoSlotForPin

datatype duty = Duty0 | Duty100

subsection \<open>WaveformClock\<close>

text \<open>
  Modelled from the spec: the state of WaveformClock beyond the watermark, which the
  header does not declare. The callback reference stored by \<open>begin\<close> (none before), the
  timer configuration (armed or not), and per pin the duty cycle latched for the next
  interrupt cycle and the duty cycle rendered in the current one (none: the pin is not under
  hardware duty-cycle control).
\<close>

record 'i WaveformClock = "'i DCCTimer" +
  interruptCallback :: "nat option"
  armed :: bool
  pwm_next :: "byte \<Rightarrow> duty option"
  pwm_now :: "byte \<Rightarrow> duty option"

text \<open>
  Modelled from the spec: the body of \<open>DCCTimer::begin\<close>. It arms the timer and stores
  the callback; a second call is a fatal configuration error.
\<close>

definition begin_timer :: "nat \<Rightarrow> 'i WaveformClock \<Rightarrow> violation + 'i WaveformClock" where
  "begin_timer interrupt s =
     (if armed s then Inl DoubleBegin
      else Inr (s\<lparr>interruptCallback := Some interrupt, armed := True\<rparr>))"

text \<open>
  Modelled from the spec: the body of \<open>DCCTimer::getMinimumFreeMemory\<close>, a read of the
  watermark without mutation.
\<close>

definition getMinimumFreeMemory :: "('i, 'z) DCCTimer_scheme \<Rightarrow> 'i" where
  "getMinimumFreeMemory s = minimum_free_memory s"

text \<open>
  Modelled from the spec: the body of \<open>DCCTimer::reset\<close>, which resets the watermark to
  its initial sentinel without touching the timer configuration. The sentinel is the
  initial value of \<open>minimum_free_memory\<close>, set outside the header: a parameter.
\<close>

definition reset :: "'i \<Rightarrow> ('i, 'z) DCCTimer_scheme \<Rightarrow> ('i, 'z) DCCTimer_scheme" where
  "reset sentinel s = s\<lparr>minimum_free_memory := sentinel\<rparr>"

text \<open>
  Modelled from the spec: the body of \<open>DCCTimer::isPWMPin\<close>, a lookup in a static table
  of the architecture (the pins wired to a timer channel), a parameter.
\<close>

definition isPWMPin :: "byte list \<Rightarrow> byte \<Rightarrow> bool" where
  "isPWMPin pwm_pins pin = (pin \<in> set pwm_pins)"

text \<open>
  Modelled from the spec: the body of \<open>DCCTimer::setPWM\<close>. For a pin that \<open>isPWMPin\<close>
  reports true it schedules the duty cycle of the next interrupt cycle, 0% (low) or 100%
  (high), and does not touch the pin now; on another pin it is a contract violation.
\<close>

definition setPWM ::
  "byte list \<Rightarrow> byte \<Rightarrow> bool \<Rightarrow> 'i WaveformClock \<Rightarrow> violation + 'i WaveformClock" where
  "setPWM pwm_pins pin high s =
     (if isPWMPin pwm_pins pin
      then Inr (s\<lparr>pwm_next := (pwm_next s)(pin \<mapsto> (if high then Duty100 else Duty0))\<rparr>)
      else Inl NotPWMPin)"

text \<open>
  Modelled from the spec: one tick of the armed hardware timer (section 4.1, the state
  machine of the timer). The duty cycle latched for the next cycle is the one rendered from
  this tick on; nothing else of the clock changes.
\<close>

definition tick :: "'i WaveformClock \<Rightarrow> 'i WaveformClock" where
  "tick s = s\<lparr>pwm_now := pwm_next s\<rparr>"

text \<open>
  Modelled from the spec: what \<open>getSimulatedMacAddress\<close> reads. The hardware-unique data
  of the platform (none where the platform has no such source) and the value that stands in
  for it, fixed for the boot session.
\<close>

record platform =
  unique_source :: "byte list option"
  session_fallback :: "byte list"

definition mac_source :: "platform \<Rightarrow> byte list" where
  "mac_source p = (case unique_source p of Some d \<Rightarrow> d | None \<Rightarrow> session_fallback p)"

text \<open>
  Modelled from the spec: the body of \<open>DCCTimer::getSimulatedMacAddress\<close>. It writes the
  six bytes of the caller's buffer in place, byte \<open>i\<close> derived from the data of the
  platform by the derivation of the architecture (a parameter), and has no failure path.
\<close>

definition getSimulatedMacAddress ::
  "(byte list \<Rightarrow> nat \<Rightarrow> byte) \<Rightarrow> platform \<Rightarrow> byte list \<Rightarrow> byte list" where
  "getSimulatedMacAddress derive p mac =
     fold (\<lambda>i m. m[i := derive (mac_source p) i]) [0..<6] mac"

subsection \<open>AnalogSampler\<close>

text \<open>
  Modelled from the spec: the state of AnalogSampler beyond the two members of the header.
  How often the one-time ADC configuration has run, how many conversions have been started,
  and the slot the background scan converted last.
\<close>

record 'i AnalogSampler = "'i ADCee" +
  config_runs :: nat
  conversions :: nat
  scan_slot :: nat

text \<open>
  Modelled from the spec: the body of \<open>ADCee::init\<close>. \<open>slot\<close> maps a pin to its slot
  (its bit in \<open>usedpins\<close> and its index in \<open>analogvals\<close>), a table of the architecture;
  \<open>raw\<close> is the reading the ADC delivers for the pin. A pin already registered is left
  alone and its cached value returned; a new pin is configured, converted once, cached and
  registered. A slot beyond the 16 bits of \<open>usedpins\<close> cannot be registered.
\<close>

definition init ::
  "(byte \<Rightarrow> nat) \<Rightarrow> 'i \<Rightarrow> byte \<Rightarrow> 'i AnalogSampler \<Rightarrow> violation + ('i \<times> 'i AnalogSampler)" where
  "init slot raw pin s =
     (if 16 \<le> slot pin then Inl NoSlotForPin
      else if monitored s (slot pin) then Inr (analogvals s (slot pin), s)
      else Inr (raw,
             s\<lparr>usedpins := usedpins s OR push_bit (slot pin) 1,
               analogvals := (analogvals s)(slot pin := raw),
               config_runs := Suc (config_runs s),
               conversions := Suc (conversions s)\<rparr>))"

text \<open>
  Modelled from the spec: the body of \<open>ADCee::scan\<close>, one step of the background scan.
  It advances to the next registered slot after the one converted last, issues one
  conversion (\<open>adc\<close> gives the reading of a slot) and writes the result into the cache.
\<close>

definition next_slot :: "16 word \<Rightarrow> nat \<Rightarrow> nat option" where
  "next_slot used k =
     List.find (\<lambda>n. bit used n) (map (\<lambda>d. (k + 1 + d) mod 16) [0..<16])"

definition scan :: "(nat \<Rightarrow> 'i) \<Rightarrow> 'i AnalogSampler \<Rightarrow> 'i AnalogSampler" where
  "scan adc s =
     (case next_slot (usedpins s) (scan_slot s) of
        None \<Rightarrow> s
      | Some n \<Rightarrow> s\<lparr>analogvals := (analogvals s)(n := adc n),
                    conversions := Suc (conversions s),
                    scan_slot := n\<rparr>)"

text \<open>
  Modelled from the spec: the body of \<open>ADCee::read\<close>. Reading a pin that was not
  registered by \<open>init\<close> is a contract violation. From interrupt context the cached sample
  is returned and nothing else happens; outside it the background scan makes a step first.
\<close>

definition read ::
  "(byte \<Rightarrow> nat) \<Rightarrow> (nat \<Rightarrow> 'i) \<Rightarrow> byte \<Rightarrow> bool \<Rightarrow> 'i AnalogSampler
     \<Rightarrow> violation + ('i \<times> 'i AnalogSampler)" where
  "read slot adc pin fromISR s =
     (if \<not> monitored s (slot pin) then Inl PinNotRegistered
      else if fromISR then Inr (analogvals s (slot pin), s)
      else Inr (analogvals (scan adc s) (slot pin), scan adc s))"

section \<open>The low-memory watermark\<close>

subsection \<open>Signed reading of the arithmetic\<close>

lemma sint_ucast_byte:
  assumes "8 < LENGTH('a::len)"
  shows "sint (ucast (e :: byte) :: 'a word) = uint e"
proof -
  have "(2::int) ^ 8 \<le> 2 ^ (LENGTH('a) - Suc 0)"
    using assms by (intro power_increasing) auto
  moreover have "uint e < 2 ^ 8"
    using uint_bounded [of e] by simp
  ultimately have "uint e < 2 ^ (LENGTH('a) - Suc 0)"
    by linarith
  moreover have "- (2 ^ (LENGTH('a) - Suc 0)) \<le> uint e"
    by (rule order_trans [of _ 0]) simp_all
  ultimately show ?thesis
    by (simp add: signed_ucast_eq signed_take_bit_int_eq_self)
qed

lemma sint_sub_no_overflow:
  fixes f :: "'a::len word"
  assumes "8 < LENGTH('a)" and "- (2 ^ (LENGTH('a) - 1)) \<le> sint f - uint e"
  shows "sint (f - ucast (e::byte)) = sint f - uint e"
proof -
  have "sint f - uint e \<le> sint f"
    by simp
  also have "\<dots> < 2 ^ (LENGTH('a) - 1)"
    by (rule sint_lt)
  finally have "sint f - uint e < 2 ^ (LENGTH('a) - 1)" .
  with assms(2) have "signed_take_bit (LENGTH('a) - 1) (sint f - uint e) = sint f - uint e"
    by (rule signed_take_bit_int_eq_self)
  then show ?thesis
    by (simp add: sint_word_diff sint_ucast_byte [OF assms(1)])
qed

lemma sint_spare: "sint (spare f e) = max 0 (sint (f - ucast e))"
  by (simp add: spare_def Let_def word_sless_alt max_def)

lemma spare_nonneg: "0 \<le> sint (spare f e)"
  by (simp add: sint_spare)

lemma sint_update:
  "sint (minimum_free_memory (updateMinimumFreeMemoryISR f e s)) =
     min (sint (minimum_free_memory s)) (sint (spare f e))"
  by (simp add: updateMinimumFreeMemoryISR_def word_sless_alt min_def)

lemma update_more:
  "DCCTimer.more (updateMinimumFreeMemoryISR f e s) = DCCTimer.more s"
  by (simp add: updateMinimumFreeMemoryISR_def)

subsection \<open>Sequences of calls\<close>

lemma run_updates_below:
  "t \<in> set (run_updates calls s) \<Longrightarrow>
     sint (minimum_free_memory t) \<le> sint (minimum_free_memory s)"
proof (induction calls arbitrary: s)
  case Nil
  then show ?case by simp
next
  case (Cons c calls)
  obtain f e where c: "c = (f, e)" by (cases c)
  let ?u = "updateMinimumFreeMemoryISR f e s"
  have step: "sint (minimum_free_memory ?u) \<le> sint (minimum_free_memory s)"
    by (simp add: sint_update)
  from Cons.prems c have "t = ?u \<or> t \<in> set (run_updates calls ?u)"
    by simp
  then show ?case
  proof
    assume "t = ?u"
    with step show ?thesis by simp
  next
    assume "t \<in> set (run_updates calls ?u)"
    then have "sint (minimum_free_memory t) \<le> sint (minimum_free_memory ?u)"
      by (rule Cons.IH)
    with step show ?thesis by linarith
  qed
qed

lemma run_updates_sorted:
  "sorted_wrt (\<lambda>a b. sint (minimum_free_memory b) \<le> sint (minimum_free_memory a))
     (s # run_updates calls s)"
proof (induction calls arbitrary: s)
  case Nil
  then show ?case by simp
next
  case (Cons c calls)
  obtain f e where c: "c = (f, e)" by (cases c)
  show ?case
    using Cons.IH [of "updateMinimumFreeMemoryISR f e s"] run_updates_below [of _ "c # calls" s]
    by (simp add: c)
qed

lemma run_updates_nonneg:
  "0 \<le> sint (minimum_free_memory s) \<Longrightarrow> t \<in> set (run_updates calls s) \<Longrightarrow>
     0 \<le> sint (minimum_free_memory t)"
proof (induction calls arbitrary: s)
  case Nil
  then show ?case by simp
next
  case (Cons c calls)
  obtain f e where c: "c = (f, e)" by (cases c)
  let ?u = "updateMinimumFreeMemoryISR f e s"
  have u: "0 \<le> sint (minimum_free_memory ?u)"
    using Cons.prems(1) by (simp add: sint_update spare_nonneg)
  from Cons.prems(2) c have "t = ?u \<or> t \<in> set (run_updates calls ?u)"
    by simp
  then show ?case
    using u Cons.IH [OF u] by auto
qed

text \<open>
  Claim C1. Take any state \<open>s\<close> and any sequence of calls of
  \<open>updateMinimumFreeMemoryISR\<close>, with any \<open>extraBytes\<close> arguments and any values returned
  by \<open>freeMemory()\<close>, and no reset in between. In the list of \<open>s\<close> and the states after
  each call, the watermark of a later state is never above the watermark of an earlier one.
  When the run starts at a watermark that is not negative, as at start-up or after a reset,
  where the watermark holds the large sentinel, the watermark is at least 0 after every
  call.
\<close>

theorem watermark_never_increases:
  "sorted_wrt (\<lambda>a b. sint (minimum_free_memory b) \<le> sint (minimum_free_memory a))
     (s # run_updates calls s)
   \<and> (0 \<le> sint (minimum_free_memory s) \<longrightarrow>
        (\<forall>t \<in> set (run_updates calls s). 0 \<le> sint (minimum_free_memory t)))"
  using run_updates_sorted [of s calls] run_updates_nonneg [of s _ calls] by blast

theorem watermark_never_increases_witness:
  "0 \<le> sint (minimum_free_memory \<lparr>minimum_free_memory = 32767 :: 16 word\<rparr>)
   \<and> list_all (\<lambda>t. 0 \<le> sint (minimum_free_memory t))
        (run_updates [(100, 10), (50, 0), (200, 100), (5, 10)]
           \<lparr>minimum_free_memory = 32767 :: 16 word\<rparr>)
   \<and> map minimum_free_memory
        (run_updates [(100, 10), (50, 0), (200, 100), (5, 10)]
           \<lparr>minimum_free_memory = 32767 :: 16 word\<rparr>) = [90, 50, 50, 0]"
proof -
  have h: "0 \<le> sint (minimum_free_memory \<lparr>minimum_free_memory = 32767 :: 16 word\<rparr>)"
    by simp
  have v: "map minimum_free_memory
        (run_updates [(100, 10), (50, 0), (200, 100), (5, 10)]
           \<lparr>minimum_free_memory = 32767 :: 16 word\<rparr>) = [90, 50, 50, 0]"
    by (simp add: updateMinimumFreeMemoryISR_def spare_def Let_def word_sless_alt)
  from h v watermark_never_increases
    [of "\<lparr>minimum_free_memory = 32767 :: 16 word\<rparr>" "[(100, 10), (50, 0), (200, 100), (5, 10)]"]
  show ?thesis unfolding list_all_iff by blast
qed

text \<open>
  Claim C2, as stated, at a concrete input. On a target with a 16-bit \<open>int\<close> let the
  watermark be 100, let \<open>freeMemory()\<close> return -32768 and let \<open>extraBytes\<close> be 1.
  The difference -32769 is not an \<open>int\<close>: \<open>spare\<close> is 32767, which is neither negative
  nor below 100, and the watermark stays 100, where \<open>min(m, max(0, f - e))\<close> is 0.
\<close>

theorem watermark_one_call_counterexample:
  "sint (minimum_free_memory
      (updateMinimumFreeMemoryISR (- 32768) 1 \<lparr>minimum_free_memory = 100 :: 16 word\<rparr>)) = 100
   \<and> sint (minimum_free_memory
      (updateMinimumFreeMemoryISR (- 32768) 1 \<lparr>minimum_free_memory = 100 :: 16 word\<rparr>))
     \<noteq> min (sint (100 :: 16 word)) (max 0 (sint (- 32768 :: 16 word) - uint (1 :: byte)))"
  by (simp add: updateMinimumFreeMemoryISR_def spare_def Let_def word_sless_alt)

text \<open>
  Claim C2, amended. For every prior watermark \<open>m\<close>, every value \<open>f\<close> returned by
  \<open>freeMemory()\<close> and every \<open>extraBytes\<close> \<open>e\<close> in 0..255 such that \<open>f - e\<close> is not
  below the least \<open>int\<close> (so for every \<open>f\<close> that is not negative), one call leaves the
  watermark equal to \<open>min(m, max(0, f - e))\<close>, and changes nothing else. (An \<open>int\<close> has
  at least 16 bits; the proof needs more than 8.)
\<close>

theorem watermark_one_call:
  fixes f :: "'a::len word"
  assumes "8 < LENGTH('a)" and "- (2 ^ (LENGTH('a) - 1)) \<le> sint f - uint e"
  shows "sint (minimum_free_memory (updateMinimumFreeMemoryISR f e s)) =
           min (sint (minimum_free_memory s)) (max 0 (sint f - uint e))
         \<and> DCCTimer.more (updateMinimumFreeMemoryISR f e s) = DCCTimer.more s"
  by (simp add: sint_update sint_spare sint_sub_no_overflow [OF assms] update_more)

theorem watermark_one_call_witness:
  "8 < LENGTH(16) \<and> - (2 ^ (LENGTH(16) - 1)) \<le> sint (5 :: 16 word) - uint (10 :: byte)
   \<and> sint (minimum_free_memory
        (updateMinimumFreeMemoryISR 5 10 \<lparr>minimum_free_memory = 100 :: 16 word\<rparr>)) = 0"
  using watermark_one_call [of 5 10 "\<lparr>minimum_free_memory = 100 :: 16 word\<rparr>"]
  by simp

text \<open>
  Claim C9. When two consecutive calls see the same value of \<open>freeMemory()\<close> and pass
  the same \<open>extraBytes\<close>, the second call leaves the state exactly as the first left it:
  after the first call \<open>spare\<close> is not below the watermark, so the strict comparison of
  line 78 fails and the second call assigns nothing.
\<close>

theorem update_repeated:
  "updateMinimumFreeMemoryISR f e (updateMinimumFreeMemoryISR f e s) =
     updateMinimumFreeMemoryISR f e s
   \<and> \<not> spare f e <s minimum_free_memory (updateMinimumFreeMemoryISR f e s)"
  by (simp add: updateMinimumFreeMemoryISR_def word_sless_alt)

theorem update_repeated_witness:
  "updateMinimumFreeMemoryISR 70 20
     (updateMinimumFreeMemoryISR 70 20 \<lparr>minimum_free_memory = 100 :: 16 word\<rparr>) =
     \<lparr>minimum_free_memory = 50 :: 16 word\<rparr>
   \<and> \<not> spare 70 20 <s (50 :: 16 word)"
proof -
  have "updateMinimumFreeMemoryISR 70 20 \<lparr>minimum_free_memory = 100 :: 16 word\<rparr> =
          \<lparr>minimum_free_memory = 50 :: 16 word\<rparr>"
    by (simp add: updateMinimumFreeMemoryISR_def spare_def Let_def word_sless_alt)
  with update_repeated [of 70 20 "\<lparr>minimum_free_memory = 100 :: 16 word\<rparr>"]
  show ?thesis by simp
qed

section \<open>The timer ticks of a half-cycle\<close>

lemma div_million_bounds:
  fixes a :: int
  assumes "0 \<le> a" and "a \<le> 2 ^ 31"
  shows "0 \<le> a div 1000000 \<and> a div 1000000 \<le> 2147"
proof -
  have "a div 1000000 \<le> 2 ^ 31 div 1000000"
    using assms(2) by (rule zdiv_mono1) simp
  moreover have "0 \<le> a div 1000000"
    using assms(1) by (simp add: pos_imp_zdiv_nonneg_iff)
  ultimately show ?thesis by simp
qed

lemma sdiv_million_bounds:
  fixes a :: int
  assumes "- (2 ^ 31) \<le> a" and "a < 2 ^ 31"
  shows "- 2147 \<le> a sdiv 1000000 \<and> a sdiv 1000000 \<le> 2147"
proof (cases "0 \<le> a")
  case True
  then have "a sdiv 1000000 = a div 1000000"
    by (simp add: signed_divide_int_def sgn_if)
  with div_million_bounds [of a] True assms show ?thesis by simp
next
  case False
  then have "a sdiv 1000000 = - ((- a) div 1000000)"
    by (simp add: signed_divide_int_def sgn_if)
  with div_million_bounds [of "- a"] False assms show ?thesis by simp
qed

lemma sint_div_long_million:
  "sint (div_long F 1000000) = sint F sdiv 1000000"
proof -
  have "- (2 ^ 31) \<le> sint F" and "sint F < 2 ^ 31"
    using sint_ge [of F] sint_lt [of F] by simp_all
  then have b: "- 2147 \<le> sint F sdiv 1000000 \<and> sint F sdiv 1000000 \<le> 2147"
    by (rule sdiv_million_bounds)
  have "signed_take_bit 31 (sint F sdiv 1000000) = sint F sdiv 1000000"
    by (rule signed_take_bit_int_eq_self) (use b in simp_all)
  then show ?thesis
    by (simp add: div_long_def sint_sbintrunc')
qed

lemma sint_product:
  "sint (div_long F 1000000 * word_of_int DCC_SIGNAL_TIME) = (sint F sdiv 1000000) * 58"
proof -
  have "- (2 ^ 31) \<le> sint F" and "sint F < 2 ^ 31"
    using sint_ge [of F] sint_lt [of F] by simp_all
  then have b: "- 2147 \<le> sint F sdiv 1000000 \<and> sint F sdiv 1000000 \<le> 2147"
    by (rule sdiv_million_bounds)
  have "signed_take_bit 31 ((sint F sdiv 1000000) * 58) = (sint F sdiv 1000000) * 58"
    by (rule signed_take_bit_int_eq_self) (use b in simp_all)
  then show ?thesis
    by (simp add: sint_word_mult sint_div_long_million DCC_SIGNAL_TIME_def)
qed

lemma even_sdiv_two: "(t * 58) sdiv 2 = t * (29::int)"
  by (simp add: signed_divide_int_def sgn_if abs_mult)

lemma even_drop_bit: "drop_bit (Suc 0) (t * 58) = t * (29::int)"
  by (simp add: drop_bit_eq_div)

lemma sint_CLOCK_CYCLES: "sint (CLOCK_CYCLES F_CPU) = (sint F_CPU sdiv 1000000) * 29"
  by (simp add: CLOCK_CYCLES_def sint_signed_drop_bit_eq sint_product even_drop_bit)

lemma shift_is_division:
  "CLOCK_CYCLES F_CPU = div_long (div_long F_CPU 1000000 * word_of_int DCC_SIGNAL_TIME) 2"
proof -
  let ?X = "div_long F_CPU 1000000 * word_of_int DCC_SIGNAL_TIME"
  have two: "sint (2 :: long) = 2"
    by simp
  have "div_long ?X 2 = word_of_int (sint ?X sdiv 2)"
    unfolding div_long_def two ..
  also have "\<dots> = word_of_int ((sint F_CPU sdiv 1000000) * 29)"
    by (simp only: sint_product even_sdiv_two)
  also have "\<dots> = word_of_int (sint (CLOCK_CYCLES F_CPU))"
    by (simp only: sint_CLOCK_CYCLES)
  also have "\<dots> = CLOCK_CYCLES F_CPU"
    by simp
  finally show ?thesis by (rule sym)
qed

text \<open>
  Claim C3. For every clock frequency of the build, \<open>CLOCK_CYCLES\<close> read as a signed
  number is \<open>ticksPerMicrosecond * 58 / 2\<close> in exact truncating integer arithmetic,
  where \<open>ticksPerMicrosecond\<close> is \<open>F_CPU / 1000000\<close> truncated; the shift right by
  one of the code gives the same \<open>long\<close> as the truncating division by 2 of C++; and the
  constant of the STM32 branch is the formula at 100 ticks per microsecond.
\<close>

theorem CLOCK_CYCLES_exact:
  "sint (CLOCK_CYCLES F_CPU) = clockCycles_spec (ticksPerMicrosecond F_CPU)
   \<and> CLOCK_CYCLES F_CPU = div_long (div_long F_CPU 1000000 * word_of_int DCC_SIGNAL_TIME) 2
   \<and> sint CLOCK_CYCLES_STM32 = clockCycles_spec 100"
proof -
  have "sint CLOCK_CYCLES_STM32 = clockCycles_spec 100"
    by (simp add: CLOCK_CYCLES_STM32_def div_long_def DCC_SIGNAL_TIME_def
        signed_divide_int_def clockCycles_spec_def)
  moreover have "sint (CLOCK_CYCLES F_CPU) = clockCycles_spec (ticksPerMicrosecond F_CPU)"
    by (simp only: sint_CLOCK_CYCLES clockCycles_spec_def ticksPerMicrosecond_def even_sdiv_two)
  ultimately show ?thesis
    using shift_is_division [of F_CPU] by simp
qed

theorem CLOCK_CYCLES_exact_witness:
  "sint (CLOCK_CYCLES 16000000) = 464 \<and> clockCycles_spec (ticksPerMicrosecond 16000000) = 464
   \<and> sint CLOCK_CYCLES_STM32 = 2900"
proof -
  have "clockCycles_spec (ticksPerMicrosecond 16000000) = 464"
    by (simp add: clockCycles_spec_def ticksPerMicrosecond_def signed_divide_int_def)
  moreover have "clockCycles_spec 100 = 2900"
    by (simp add: clockCycles_spec_def signed_divide_int_def)
  moreover from CLOCK_CYCLES_exact [of 16000000]
  have "sint (CLOCK_CYCLES 16000000) = clockCycles_spec (ticksPerMicrosecond 16000000)"
    and "sint CLOCK_CYCLES_STM32 = clockCycles_spec 100"
    by blast+
  ultimately show ?thesis
    by (simp only: simp_thms)
qed

section \<open>The bitset of registered pins\<close>

lemma monitored_bound: "monitored s n \<Longrightarrow> n < 16"
  using bit_imp_le_length [of "usedpins s" n] by (simp add: monitored_def)

text \<open>
  Claim C10. \<open>usedpins\<close> is a 16-bit value: in every state the slots whose bit is set
  are among the bit positions 0 to 15, so at most 16 pins are monitored at a time.
\<close>

theorem usedpins_at_most_16:
  "card {n. monitored s n} \<le> 16 \<and> (\<forall>n. monitored s n \<longrightarrow> n < 16)"
proof -
  have "{n. monitored s n} \<subseteq> {..<16}"
    using monitored_bound [of s] by auto
  then have "card {n. monitored s n} \<le> card {..<16::nat}"
    by (intro card_mono) simp_all
  then show ?thesis
    using monitored_bound [of s] by simp
qed

theorem usedpins_at_most_16_witness:
  "monitored \<lparr>usedpins = 5, analogvals = (\<lambda>n. 0 :: 16 word)\<rparr> 2 \<and> (2::nat) < 16
   \<and> \<not> monitored \<lparr>usedpins = 65535, analogvals = (\<lambda>n. 0 :: 16 word)\<rparr> 16"
proof -
  have "monitored \<lparr>usedpins = 5, analogvals = (\<lambda>n. 0 :: 16 word)\<rparr> 2"
    by (simp add: monitored_def bit_numeral_word_iff)
  moreover have "\<not> monitored \<lparr>usedpins = 65535, analogvals = (\<lambda>n. 0 :: 16 word)\<rparr> 16"
    using usedpins_at_most_16 [of "\<lparr>usedpins = 65535, analogvals = (\<lambda>n. 0 :: 16 word)\<rparr>"]
    by auto
  ultimately show ?thesis by simp
qed

section \<open>WaveformClock as specified\<close>

text \<open>
  Claim C4. After \<open>reset\<close>, \<open>getMinimumFreeMemory\<close> returns the sentinel whatever
  the watermark was before, and \<open>reset\<close> changes nothing else: not the stored callback,
  not the timer configuration, not the duty cycles, nor any other part of the state.
\<close>

theorem reset_restores_sentinel:
  "getMinimumFreeMemory (reset sentinel s) = sentinel
   \<and> interruptCallback (reset sentinel s) = interruptCallback s
   \<and> armed (reset sentinel s) = armed s
   \<and> pwm_next (reset sentinel s) = pwm_next s
   \<and> pwm_now (reset sentinel s) = pwm_now s
   \<and> DCCTimer.more (reset sentinel s) = DCCTimer.more s"
  by (simp add: reset_def getMinimumFreeMemory_def)

theorem reset_restores_sentinel_witness:
  "getMinimumFreeMemory
     (reset 32767 \<lparr>minimum_free_memory = 12 :: 16 word, interruptCallback = Some 1,
        armed = True, pwm_next = [11 \<mapsto> Duty100], pwm_now = Map.empty\<rparr>) = 32767
   \<and> armed
     (reset 32767 \<lparr>minimum_free_memory = 12 :: 16 word, interruptCallback = Some 1,
        armed = True, pwm_next = [11 \<mapsto> Duty100], pwm_now = Map.empty\<rparr>)"
  using reset_restores_sentinel [of 32767 "\<lparr>minimum_free_memory = 12 :: 16 word,
    interruptCallback = Some 1, armed = True, pwm_next = [11 \<mapsto> Duty100], pwm_now = Map.empty\<rparr>"]
  by simp

lemma reset_after_begin:
  assumes "begin_timer interrupt s = Inr s'"
  shows "interruptCallback (reset sentinel s') = Some interrupt \<and> armed (reset sentinel s')"
  using assms by (auto simp: begin_timer_def reset_def split: if_splits)

lemma setPWM_twice:
  assumes "isPWMPin pwm_pins p"
  shows "\<exists>s1 s2. setPWM pwm_pins p h1 s = Inr s1 \<and> setPWM pwm_pins p h2 s1 = Inr s2
           \<and> pwm_now (tick s2) p = Some (if h2 then Duty100 else Duty0)
           \<and> pwm_now s2 = pwm_now s"
  using assms by (simp add: setPWM_def tick_def)

text \<open>
  Claim C5. For a pin \<open>p\<close> that \<open>isPWMPin\<close> reports true, \<open>setPWM p true\<close> followed
  by \<open>setPWM p false\<close> before the next tick both succeed, the duty cycle rendered from
  the following tick on is 0%, and the duty cycles rendered before that tick are untouched:
  the last write decides the value latched for the next cycle.
\<close>

theorem setPWM_last_write_wins:
  assumes "isPWMPin pwm_pins p"
  shows "\<exists>s1 s2. setPWM pwm_pins p True s = Inr s1 \<and> setPWM pwm_pins p False s1 = Inr s2
           \<and> pwm_now (tick s2) p = Some Duty0
           \<and> pwm_now s2 = pwm_now s"
  using setPWM_twice [OF assms, of True s False] by simp

theorem setPWM_last_write_wins_witness:
  "isPWMPin [11, 12] 11
   \<and> (\<exists>s1 s2.
        setPWM [11, 12] 11 True
          \<lparr>minimum_free_memory = 0 :: 16 word, interruptCallback = Some 1, armed = True,
            pwm_next = Map.empty, pwm_now = Map.empty\<rparr> = Inr s1
        \<and> setPWM [11, 12] 11 False s1 = Inr s2
        \<and> pwm_now (tick s2) 11 = Some Duty0)"
proof -
  have h: "isPWMPin [11, 12] 11"
    by (simp add: isPWMPin_def)
  from setPWM_last_write_wins [OF h] h show ?thesis
    by blast
qed

lemma upt_6: "[0..<6] = [0, 1, 2, 3, 4, 5]"
  by (simp add: upt_rec)

lemma mac_filled:
  assumes "length mac = 6"
  shows "getSimulatedMacAddress derive p mac = map (derive (mac_source p)) [0..<6]"
proof -
  from assms obtain a b c d e f where "mac = [a, b, c, d, e, f]"
    by (auto simp: length_Suc_conv numeral_eq_Suc)
  then show ?thesis
    by (simp add: getSimulatedMacAddress_def upt_6)
qed

text \<open>
  Claim C8. \<open>getSimulatedMacAddress\<close> fills a buffer of six bytes with the same six
  bytes whatever the buffer held before: two calls on the same platform data (one boot
  session) write identical bytes; all six bytes are written; the bytes come from the
  hardware-unique data, or from the fallback of the session where there is none.
\<close>

theorem mac_deterministic:
  assumes "length mac = 6" and "length mac' = 6"
  shows "getSimulatedMacAddress derive p mac = getSimulatedMacAddress derive p mac'
         \<and> length (getSimulatedMacAddress derive p mac) = 6
         \<and> getSimulatedMacAddress derive p mac = map (derive (mac_source p)) [0..<6]"
  using mac_filled [OF assms(1)] mac_filled [OF assms(2)] by simp

theorem mac_deterministic_witness:
  "length [0, 0, 0, 0, 0, 0 :: byte] = 6 \<and> length [9, 8, 7, 6, 5, 4 :: byte] = 6
   \<and> getSimulatedMacAddress (\<lambda>d i. d ! i)
        \<lparr>unique_source = None, session_fallback = [2, 0, 0, 0, 0, 1]\<rparr> [0, 0, 0, 0, 0, 0]
      = getSimulatedMacAddress (\<lambda>d i. d ! i)
        \<lparr>unique_source = None, session_fallback = [2, 0, 0, 0, 0, 1]\<rparr> [9, 8, 7, 6, 5, 4]
   \<and> getSimulatedMacAddress (\<lambda>d i. d ! i)
        \<lparr>unique_source = None, session_fallback = [2, 0, 0, 0, 0, 1]\<rparr> [9, 8, 7, 6, 5, 4]
      = [2, 0, 0, 0, 0, 1]"
proof -
  have a: "length [0, 0, 0, 0, 0, 0 :: byte] = 6" and b: "length [9, 8, 7, 6, 5, 4 :: byte] = 6"
    by simp_all
  have "map ((\<lambda>d i. d ! i) (mac_source \<lparr>unique_source = None, session_fallback = [2, 0, 0, 0, 0, 1]\<rparr>))
          [0..<6] = [2, 0, 0, 0, 0, 1 :: byte]"
    by (simp add: mac_source_def upt_6)
  with mac_deterministic [OF a b] mac_deterministic [OF b a] a b show ?thesis
    by simp
qed

section \<open>AnalogSampler as specified\<close>

lemma bit_own_slot:
  fixes u :: "16 word"
  assumes "i < 16"
  shows "bit (u OR 2 ^ i) i"
  using assms by (simp add: bit_or_iff bit_exp_iff)

lemma init_registers:
  assumes "init slot raw pin s = Inr (v, s')"
  shows "monitored s' (slot pin) \<and> analogvals s' (slot pin) = v"
  using assms
  by (auto simp: init_def monitored_def bit_own_slot split: if_splits)

text \<open>The set of registered pins grows by \<open>init\<close> and never shrinks.\<close>

lemma scan_keeps_usedpins: "usedpins (scan adc s) = usedpins s"
  by (simp add: scan_def split: option.splits)

lemma init_keeps_monitored:
  assumes "init slot raw pin s = Inr (v, s')" and "monitored s n"
  shows "monitored s' n"
  using assms by (auto simp: init_def monitored_def bit_or_iff split: if_splits)

lemma read_keeps_monitored:
  assumes "read slot adc pin fromISR s = Inr (v, s')"
  shows "monitored s' n = monitored s n"
  using assms by (auto simp: read_def monitored_def scan_keeps_usedpins split: if_splits)

text \<open>
  Claim C6. After a first successful \<open>init\<close> of a pin, a second \<open>init\<close> of the same
  pin (whatever the ADC would deliver now) returns the value the first call returned, which
  is the cached value a read of the pin from interrupt context returns, and leaves the whole
  sampler state as it was: the registered pins, the cached values, and the counts of
  configuration runs and of conversions.
\<close>

theorem init_idempotent:
  assumes "init slot raw pin s = Inr (v, s')"
  shows "init slot raw' pin s' = Inr (v, s')
         \<and> read slot adc pin True s' = Inr (v, s')"
  using init_registers [OF assms] assms
  by (auto simp: init_def read_def split: if_splits)

theorem init_idempotent_witness:
  "init unat 512 3
     \<lparr>usedpins = 0, analogvals = (\<lambda>n. 0 :: 16 word), config_runs = 0, conversions = 0,
       scan_slot = 0\<rparr>
   = Inr (512, \<lparr>usedpins = 8, analogvals = (\<lambda>n. 0 :: 16 word)(3 := 512), config_runs = 1,
       conversions = 1, scan_slot = 0\<rparr>)
   \<and> init unat 700 3
     \<lparr>usedpins = 8, analogvals = (\<lambda>n. 0 :: 16 word)(3 := 512), config_runs = 1,
       conversions = 1, scan_slot = 0\<rparr>
   = Inr (512, \<lparr>usedpins = 8, analogvals = (\<lambda>n. 0 :: 16 word)(3 := 512), config_runs = 1,
       conversions = 1, scan_slot = 0\<rparr>)"
proof -
  have first: "init unat 512 3
     \<lparr>usedpins = 0, analogvals = (\<lambda>n. 0 :: 16 word), config_runs = 0, conversions = 0,
       scan_slot = 0\<rparr>
   = Inr (512, \<lparr>usedpins = 8, analogvals = (\<lambda>n. 0 :: 16 word)(3 := 512), config_runs = 1,
       conversions = 1, scan_slot = 0\<rparr>)"
    by (simp add: init_def monitored_def)
  from init_idempotent [OF first] first show ?thesis
    by blast
qed

text \<open>
  Claim C7. For a registered pin, \<open>read\<close> with \<open>fromISR = true\<close> returns the cached
  sample of the pin and leaves the sampler state unchanged: no conversion is started, the
  registered pins, the cached values and the position of the scan stay as they were.
\<close>

theorem read_fromISR_pure:
  assumes "monitored s (slot pin)"
  shows "read slot adc pin True s = Inr (analogvals s (slot pin), s)"
  using assms by (simp add: read_def)

theorem read_fromISR_pure_witness:
  "monitored \<lparr>usedpins = 8, analogvals = (\<lambda>n. 0 :: 16 word)(3 := 512), config_runs = 1,
       conversions = 1, scan_slot = 0\<rparr> (unat (3 :: byte))
   \<and> read unat (\<lambda>n. 7) 3 True
       \<lparr>usedpins = 8, analogvals = (\<lambda>n. 0 :: 16 word)(3 := 512), config_runs = 1,
         conversions = 1, scan_slot = 0\<rparr>
     = Inr (512, \<lparr>usedpins = 8, analogvals = (\<lambda>n. 0 :: 16 word)(3 := 512), config_runs = 1,
         conversions = 1, scan_slot = 0\<rparr>)"
proof -
  have h: "monitored \<lparr>usedpins = 8, analogvals = (\<lambda>n. 0 :: 16 word)(3 := 512), config_runs = 1,
       conversions = 1, scan_slot = 0\<rparr> (unat (3 :: byte))"
    by (simp add: monitored_def bit_numeral_word_iff)
  from h read_fromISR_pure [where slot = unat and pin = 3 and adc = "\<lambda>n. 7"
      and s = "\<lparr>usedpins = 8, analogvals = (\<lambda>n. 0 :: 16 word)(3 := 512), config_runs = 1,
        conversions = 1, scan_slot = 0\<rparr>"]
  show ?thesis
    by simp
qed

text \<open>Outside interrupt context the same read lets the scan convert the next slot.\<close>

lemma read_foreground_example:
  "read unat (\<lambda>n. 7) 3 False
       \<lparr>usedpins = 8, analogvals = (\<lambda>n. 0 :: 16 word)(3 := 512), config_runs = 1,
         conversions = 1, scan_slot = 0\<rparr>
     = Inr (7, \<lparr>usedpins = 8, analogvals = (\<lambda>n. 0 :: 16 word)(3 := 7), config_runs = 1,
         conversions = 2, scan_slot = 3\<rparr>)"
  by (simp add: read_def scan_def next_slot_def monitored_def upt_rec bit_numeral_word_iff)

end
